theory Spec2Isabelle
  imports Complex_Main "HOL-Library.Sublist"
begin

section \<open>The JavaScript values the bot handles\<close>

text \<open>
  The bot (\<open>src/bot.js\<close>) relays row changes of a database and orders of a queue to a
  chat. Its values are JavaScript values; this section fixes the fragment of the language
  the handlers use.

  A number is \<open>NaN\<close> or a finite value. Finite values are rationals (every finite
  double is one) and \<open>-\<close>, \<open>*\<close> are computed exactly: the rounding of IEEE 754 is not
  part of the model, and neither are the two infinities, which no JSON number denotes.
  Comparisons with \<open>NaN\<close> are false, as in the language. The differences whose
  value matters below are those of the sweep, between clock values in milliseconds and
  thresholds of the ladders: integers that doubles hold and subtract exactly. The gates
  of the classifier are stated on the difference the handler computes.
\<close>

datatype number = NaN | Fin rat

fun num_lt :: "number \<Rightarrow> number \<Rightarrow> bool" where
  "num_lt (Fin a) (Fin b) = (a < b)"
| "num_lt _ _ = False"

definition num_gt :: "number \<Rightarrow> number \<Rightarrow> bool" where
  "num_gt a b = num_lt b a"

fun num_ge :: "number \<Rightarrow> number \<Rightarrow> bool" where
  "num_ge (Fin a) (Fin b) = (b \<le> a)"
| "num_ge _ _ = False"

fun num_sub :: "number \<Rightarrow> number \<Rightarrow> number" where
  "num_sub (Fin a) (Fin b) = Fin (a - b)"
| "num_sub _ _ = NaN"

fun num_mul :: "number \<Rightarrow> number \<Rightarrow> number" where
  "num_mul (Fin a) (Fin b) = Fin (a * b)"
| "num_mul _ _ = NaN"

fun Math_abs :: "number \<Rightarrow> number" where
  "Math_abs (Fin a) = Fin \<bar>a\<bar>"
| "Math_abs NaN = NaN"

text \<open>
  A column of a row image, or a field of an order, holds a scalar: \<open>undefined\<close> stands
  for a missing property.
\<close>

datatype jsval = JUndefined | JNull | JBool bool | JNum number | JStr string

text \<open>
  Strings are byte strings (UTF-8): the characters the code looks for (\<open>&\<close>, \<open><\<close>,
  \<open>>\<close>, \<open>|\<close>) are ASCII, and an emoji of a message template is the sequence of its
  bytes.

  A row image is an object: a list of bindings, the first binding of a name being its
  value.
\<close>

type_synonym row = "(string \<times> jsval) list"

text \<open>
  \<open>JSON.parse\<close> throws (\<open>None\<close>) or returns a value. Destructuring \<open>null\<close> throws;
  every other value is read through its properties, so it is given as the object of the
  properties it has (none, for a number or a boolean).
\<close>

datatype parsed = PNull | PObj row

text \<open>
  What the code takes from the language's library and from the platform is not in the
  repository. The conversions between numbers and strings (\<open>Number.prototype.toString\<close>,
  \<open>toLocaleString\<close>, \<open>Number\<close> of a string), the Base64 encoder of \<open>Buffer\<close> and the
  JSON parser are parameters of the model, collected in a record; the properties below
  are proved for every such runtime.
\<close>

record runtime =
  Number_toString :: "number \<Rightarrow> string"
  Number_toLocaleString :: "number \<Rightarrow> string"
  StringToNumber :: "string \<Rightarrow> number"
  base64 :: "string \<Rightarrow> string"
  JSON_parse :: "string \<Rightarrow> parsed option"

text \<open>Truthiness, and \<open>a || b\<close>.\<close>

fun truthy :: "jsval \<Rightarrow> bool" where
  "truthy JUndefined = False"
| "truthy JNull = False"
| "truthy (JBool b) = b"
| "truthy (JNum NaN) = False"
| "truthy (JNum (Fin r)) = (r \<noteq> 0)"
| "truthy (JStr s) = (s \<noteq> [])"

definition js_or :: "jsval \<Rightarrow> jsval \<Rightarrow> jsval" where
  "js_or a b = (if truthy a then a else b)"

text \<open>\<open>Number(v)\<close> and the operand conversion of \<open>-\<close> and \<open>*\<close>.\<close>

fun ToNumber :: "runtime \<Rightarrow> jsval \<Rightarrow> number" where
  "ToNumber rt JUndefined = NaN"
| "ToNumber rt JNull = Fin 0"
| "ToNumber rt (JBool b) = (if b then Fin 1 else Fin 0)"
| "ToNumber rt (JNum n) = n"
| "ToNumber rt (JStr s) = StringToNumber rt s"

text \<open>\<open>String(v)\<close>, and the interpolation \<open>${v}\<close> of a template literal.\<close>

fun ToString :: "runtime \<Rightarrow> jsval \<Rightarrow> string" where
  "ToString rt JUndefined = ''undefined''"
| "ToString rt JNull = ''null''"
| "ToString rt (JBool b) = (if b then ''true'' else ''false'')"
| "ToString rt (JNum n) = Number_toString rt n"
| "ToString rt (JStr s) = s"

text \<open>\<open>a !== b\<close> on scalars is \<open>\<not> strict_eq a b\<close>: \<open>NaN\<close> differs from itself.\<close>

definition strict_eq :: "jsval \<Rightarrow> jsval \<Rightarrow> bool" where
  "strict_eq a b = (a = b \<and> a \<noteq> JNum NaN)"

text \<open>
  \<open>s.toLowerCase()\<close>: the letters \<open>A\<close> to \<open>Z\<close> are mapped; the case mappings of
  Unicode beyond ASCII are not modelled.
\<close>

definition lower_char :: "char \<Rightarrow> char" where
  "lower_char c =
     (case map_of (zip ''ABCDEFGHIJKLMNOPQRSTUVWXYZ'' ''abcdefghijklmnopqrstuvwxyz'') c of
        None \<Rightarrow> c
      | Some l \<Rightarrow> l)"

definition toLowerCase :: "string \<Rightarrow> string" where
  "toLowerCase s = map lower_char s"

text \<open>
  Reading a row: \<open>lookup r k\<close> is \<open>r.k\<close>, \<open>opt_lookup r k\<close> is \<open>r?.k\<close>,
  \<open>has_key k r\<close> is \<open>k in r\<close>, and \<open>Object_keys r\<close> is \<open>Object.keys(r)\<close>.
\<close>

definition lookup :: "row \<Rightarrow> string \<Rightarrow> jsval" where
  "lookup r k = (case map_of r k of None \<Rightarrow> JUndefined | Some v \<Rightarrow> v)"

definition opt_lookup :: "row option \<Rightarrow> string \<Rightarrow> jsval" where
  "opt_lookup ro k = (case ro of None \<Rightarrow> JUndefined | Some r \<Rightarrow> lookup r k)"

definition Object_keys :: "row \<Rightarrow> string list" where
  "Object_keys r = remdups (map fst r)"

definition has_key :: "string \<Rightarrow> row \<Rightarrow> bool" where
  "has_key k r = (map_of r k \<noteq> None)"

text \<open>The payload of a change event: \<open>payload.new\<close> and \<open>payload.old\<close>, each absent or a row.\<close>

record payload =
  new :: "row option"
  old :: "row option"

section \<open>State\<close>

text \<open>
  The two module-level maps, and what the bot has done to the outside: \<open>sent\<close> lists the
  texts passed to \<open>sendTelegramMessage\<close>, \<open>deleted\<close> the receipt handles that
  \<open>sqs.deleteMessage\<close> has removed from the queue. Console output is not modelled.
\<close>

record state =
  processedEvents :: "string \<rightharpoonup> number"
  milestoneCache :: "string \<rightharpoonup> number"
  sent :: "string list"
  deleted :: "string list"

definition EVENT_CACHE_TTL :: number where
  "EVENT_CACHE_TTL = Fin (5 * 60 * 1000)"

text \<open>
  The two loops of the \<open>setInterval\<close> callback (lines 44 to 58) have one shape: every
  entry \<open>[key, timestamp]\<close> with \<open>now - timestamp > ttl\<close> is deleted.
\<close>

definition evict :: "number \<Rightarrow> number \<Rightarrow> (string \<rightharpoonup> number) \<Rightarrow> (string \<rightharpoonup> number)" where
  "evict now ttl m =
     (\<lambda>key. case m key of
        None \<Rightarrow> None
      | Some timestamp \<Rightarrow> if num_gt (num_sub now timestamp) ttl then None else Some timestamp)"

definition sweep :: "int \<Rightarrow> state \<Rightarrow> state" where
  "sweep now s =
     s\<lparr>processedEvents := evict (Fin (of_int now)) EVENT_CACHE_TTL (processedEvents s),
       milestoneCache := evict (Fin (of_int now)) (Fin (60 * 60 * 1000)) (milestoneCache s)\<rparr>"

section \<open>Key builder and dedup store\<close>

definition relevantFields :: "string \<Rightarrow> string list option" where
  "relevantFields table =
     (if table = ''Users'' then
        Some [''amount_deposited'', ''total_pnl'', ''total_volume'', ''txns_executed'',
              ''is_copytrading_enabled'', ''fees_total'']
      else if table = ''Auto_Trade'' then Some [''status'']
      else if table = ''Copy_Wallets'' then Some [''is_enabled'', ''percent_ratio'']
      else None)"

text \<open>\<open>Array.prototype.join\<close> writes \<open>undefined\<close> and \<open>null\<close> as the empty string.\<close>

definition join_element :: "runtime \<Rightarrow> jsval \<Rightarrow> string" where
  "join_element rt v = (if v = JUndefined \<or> v = JNull then [] else ToString rt v)"

fun join :: "string \<Rightarrow> string list \<Rightarrow> string" where
  "join sep [] = []"
| "join sep [x] = x"
| "join sep (x # y # ys) = x @ sep @ join sep (y # ys)"

text \<open>\<open>now\<close> is the value of \<open>Date.now()\<close> while the event is handled.\<close>

definition generateEventId :: "runtime \<Rightarrow> int \<Rightarrow> string \<Rightarrow> string \<Rightarrow> payload \<Rightarrow> string" where
  "generateEventId rt now table event payload =
     (let pk = js_or (opt_lookup (new payload) ''id'') (opt_lookup (old payload) ''id'');
          timestamp = js_or (js_or (opt_lookup (new payload) ''updated_at'')
                                   (opt_lookup (new payload) ''created_at''))
                            (JNum (Fin (of_int now)));
          fieldHash =
            (case new payload of
               None \<Rightarrow> []
             | Some payload_new \<Rightarrow>
                 if event = ''UPDATE'' then
                   (case relevantFields table of
                      None \<Rightarrow> []
                    | Some names \<Rightarrow>
                        take 10 (base64 rt
                          (join ''|'' (map (\<lambda>field. join_element rt (lookup payload_new field)) names))))
                 else [])
      in table @ '':'' @ event @ '':'' @ ToString rt pk @ '':'' @ ToString rt timestamp
           @ '':'' @ fieldHash)"

definition isDuplicateEvent :: "int \<Rightarrow> string \<Rightarrow> state \<Rightarrow> bool \<times> state" where
  "isDuplicateEvent now eventId s =
     (if processedEvents s eventId \<noteq> None then (True, s)
      else (False, s\<lparr>processedEvents := (processedEvents s)(eventId \<mapsto> Fin (of_int now))\<rparr>))"

section \<open>Milestone tracker\<close>

text \<open>
  \<open>checkAndNotifyMilestone\<close> (lines 113 to 124). The loop over the ladder returns at the
  first milestone that qualifies, after recording it; \<open>None\<close> is the \<open>null\<close> the function
  returns when none does.
\<close>

fun milestone_loop ::
  "string \<Rightarrow> number \<Rightarrow> number \<Rightarrow> number \<Rightarrow> number list \<Rightarrow> (number \<Rightarrow> number \<Rightarrow> 'm) \<Rightarrow> state
     \<Rightarrow> 'm option \<times> state" where
  "milestone_loop cacheKey lastNotified oldValue newValue [] messageGenerator s = (None, s)"
| "milestone_loop cacheKey lastNotified oldValue newValue (milestone # rest) messageGenerator s =
     (if num_lt oldValue milestone \<and> num_ge newValue milestone \<and> num_gt milestone lastNotified
      then (Some (messageGenerator milestone newValue),
            s\<lparr>milestoneCache := (milestoneCache s)(cacheKey \<mapsto> milestone)\<rparr>)
      else milestone_loop cacheKey lastNotified oldValue newValue rest messageGenerator s)"

text \<open>\<open>milestoneCache.get(cacheKey) || 0\<close>.\<close>

definition lastNotified_of :: "number option \<Rightarrow> number" where
  "lastNotified_of v = (case v of None \<Rightarrow> Fin 0 | Some n \<Rightarrow> if truthy (JNum n) then n else Fin 0)"

text \<open>The cache key \<open>`${userId}:${milestoneType}`\<close>.\<close>

definition cacheKey_of :: "runtime \<Rightarrow> jsval \<Rightarrow> string \<Rightarrow> string" where
  "cacheKey_of rt userId milestoneType = ToString rt userId @ '':'' @ milestoneType"

definition checkAndNotifyMilestone ::
  "runtime \<Rightarrow> jsval \<Rightarrow> string \<Rightarrow> number \<Rightarrow> number \<Rightarrow> number list \<Rightarrow> (number \<Rightarrow> number \<Rightarrow> 'm) \<Rightarrow> state
     \<Rightarrow> 'm option \<times> state" where
  "checkAndNotifyMilestone rt userId milestoneType oldValue newValue milestones messageGenerator s =
     (let cacheKey = cacheKey_of rt userId milestoneType;
          lastNotified = lastNotified_of (milestoneCache s cacheKey)
      in milestone_loop cacheKey lastNotified oldValue newValue milestones messageGenerator s)"

definition volumeMilestones :: "number list" where
  "volumeMilestones = [Fin 1000, Fin 5000, Fin 10000, Fin 25000, Fin 50000, Fin 100000]"

definition txnMilestones :: "number list" where
  "txnMilestones = [Fin 10, Fin 50, Fin 100, Fin 500, Fin 1000]"

section \<open>Formatting\<close>

definition replaceAll :: "char \<Rightarrow> string \<Rightarrow> string \<Rightarrow> string" where
  "replaceAll c r str = concat (map (\<lambda>x. if x = c then r else [x]) str)"

definition escapeHtml :: "runtime \<Rightarrow> jsval \<Rightarrow> string" where
  "escapeHtml rt str =
     (if str = JNull \<or> str = JUndefined then []
      else replaceAll (CHR ''>'') ''&gt;''
             (replaceAll (CHR ''<'') ''&lt;''
                (replaceAll (CHR ''&'') ''&amp;'' (ToString rt str))))"

definition fmt :: "runtime \<Rightarrow> jsval \<Rightarrow> string" where
  "fmt rt n =
     (if n = JNull \<or> n = JUndefined then ''0''
      else case n of JNum x \<Rightarrow> Number_toString rt x | _ \<Rightarrow> ToString rt n)"

definition sendTelegramMessage :: "string \<Rightarrow> state \<Rightarrow> state" where
  "sendTelegramMessage text_sent s = s\<lparr>sent := sent s @ [text_sent]\<rparr>"

text \<open>The line break and the emoji of the templates, as UTF-8.\<close>

definition nl :: string where "nl = [CHR 0x0A]"

definition check_mark :: string where "check_mark = [CHR 0xE2, CHR 0x9C, CHR 0x85]"
definition warning_sign :: string where
  "warning_sign = [CHR 0xE2, CHR 0x9A, CHR 0xA0, CHR 0xEF, CHR 0xB8, CHR 0x8F]"
definition cross_mark :: string where "cross_mark = [CHR 0xE2, CHR 0x9D, CHR 0x8C]"
definition hourglass :: string where "hourglass = [CHR 0xE2, CHR 0x8F, CHR 0xB3]"
definition green_circle :: string where "green_circle = [CHR 0xF0, CHR 0x9F, CHR 0x9F, CHR 0xA2]"
definition red_circle :: string where "red_circle = [CHR 0xF0, CHR 0x9F, CHR 0x94, CHR 0xB4]"
definition bar_chart :: string where "bar_chart = [CHR 0xF0, CHR 0x9F, CHR 0x93, CHR 0x8A]"
definition bust :: string where "bust = [CHR 0xF0, CHR 0x9F, CHR 0x91, CHR 0xA4]"
definition money_bag :: string where "money_bag = [CHR 0xF0, CHR 0x9F, CHR 0x92, CHR 0xB0]"
definition chart_up :: string where "chart_up = [CHR 0xF0, CHR 0x9F, CHR 0x93, CHR 0x88]"
definition chart_down :: string where "chart_down = [CHR 0xF0, CHR 0x9F, CHR 0x93, CHR 0x89]"
definition direct_hit :: string where "direct_hit = [CHR 0xF0, CHR 0x9F, CHR 0x8E, CHR 0xAF]"
definition trophy :: string where "trophy = [CHR 0xF0, CHR 0x9F, CHR 0x8F, CHR 0x86]"
definition arrows_circle :: string where "arrows_circle = [CHR 0xF0, CHR 0x9F, CHR 0x94, CHR 0x84]"
definition pause_button :: string where
  "pause_button = [CHR 0xE2, CHR 0x8F, CHR 0xB8, CHR 0xEF, CHR 0xB8, CHR 0x8F]"
definition money_wings :: string where "money_wings = [CHR 0xF0, CHR 0x9F, CHR 0x92, CHR 0xB8]"
definition next_track :: string where
  "next_track = [CHR 0xE2, CHR 0x8F, CHR 0xAD, CHR 0xEF, CHR 0xB8, CHR 0x8F]"
definition new_button :: string where "new_button = [CHR 0xF0, CHR 0x9F, CHR 0x86, CHR 0x95]"
definition eye :: string where
  "eye = [CHR 0xF0, CHR 0x9F, CHR 0x91, CHR 0x81, CHR 0xEF, CHR 0xB8, CHR 0x8F]"
definition gear :: string where
  "gear = [CHR 0xE2, CHR 0x9A, CHR 0x99, CHR 0xEF, CHR 0xB8, CHR 0x8F]"
definition right_arrow :: string where "right_arrow = [CHR 0xE2, CHR 0x86, CHR 0x92]"

section \<open>Queue message handler\<close>

datatype error = TypeError | SyntaxError | ServiceError

text \<open>
  A handler returns, or throws with the state it has reached.
\<close>

datatype outcome = Returned state | Thrown error state

text \<open>
  \<open>statusEmoji[status] || chart\<close> (lines 181 to 187): the six own properties of the
  object literal. The properties every object inherits (\<open>constructor\<close>, \<open>toString\<close>,
  ...) are not modelled.
\<close>

definition statusEmoji :: "string \<Rightarrow> string option" where
  "statusEmoji k =
     (if k = ''matched'' then Some check_mark
      else if k = ''filled'' then Some check_mark
      else if k = ''partial'' then Some warning_sign
      else if k = ''cancelled'' then Some cross_mark
      else if k = ''failed'' then Some cross_mark
      else if k = ''pending'' then Some hourglass
      else None)"

definition order_message :: "runtime \<Rightarrow> row \<Rightarrow> string" where
  "order_message rt orderData =
     (let userId = lookup orderData ''userId'';
          username = lookup orderData ''username'';
          orderId = lookup orderData ''orderId'';
          side = lookup orderData ''side'';
          marketQuestion = lookup orderData ''marketQuestion'';
          amount = lookup orderData ''amount'';
          shares = lookup orderData ''shares'';
          executionPrice = lookup orderData ''executionPrice'';
          txHash = lookup orderData ''txHash'';
          timestamp = lookup orderData ''timestamp'';
          status = lookup orderData ''status'';
          outcome = lookup orderData ''outcome'';
          sideEmoji = (if side = JStr ''YES'' then green_circle else red_circle);
          emoji = (case statusEmoji (ToString rt status) of None \<Rightarrow> bar_chart | Some e \<Rightarrow> e)
      in emoji @ '' <b>Order '' @ ToString rt status @ ''</b> '' @ sideEmoji @ nl
         @ ''User: @'' @ escapeHtml rt username @ '' (<code>'' @ escapeHtml rt userId @ ''</code>)'' @ nl
         @ ''Market: <b>'' @ escapeHtml rt marketQuestion @ ''</b>'' @ nl
         @ ''Side: <b>'' @ escapeHtml rt side @ ''</b> | Outcome: <b>'' @ escapeHtml rt outcome @ ''</b>'' @ nl
         @ ''Amount: <b>$'' @ fmt rt amount @ ''</b> | Shares: <b>'' @ fmt rt shares @ ''</b>'' @ nl
         @ ''Price: <b>'' @ fmt rt executionPrice @ ''</b>'' @ nl
         @ ''Order ID: <code>'' @ escapeHtml rt orderId @ ''</code>'' @ nl
         @ ''TX Hash: <code>'' @ escapeHtml rt txHash @ ''</code>'' @ nl
         @ ''Time: <code>'' @ escapeHtml rt timestamp @ ''</code>'')"

definition processSQSOrder :: "runtime \<Rightarrow> parsed \<Rightarrow> state \<Rightarrow> outcome" where
  "processSQSOrder rt orderData s =
     (case orderData of
        PNull \<Rightarrow> Thrown TypeError s
      | PObj fields_of_order \<Rightarrow> Returned (sendTelegramMessage (order_message rt fields_of_order) s))"

text \<open>
  A received message. \<open>sqs.deleteMessage\<close> is a call to the queue service: it removes the
  message, or it fails; \<open>service_ok\<close> says which, by receipt handle.
\<close>

record message =
  Body :: string
  ReceiptHandle :: string

definition deleteMessage :: "(string \<Rightarrow> bool) \<Rightarrow> string \<Rightarrow> state \<Rightarrow> outcome" where
  "deleteMessage service_ok handle s =
     (if service_ok handle then Returned (s\<lparr>deleted := deleted s @ [handle]\<rparr>)
      else Thrown ServiceError s)"

text \<open>
  The body of the loop over \<open>data.Messages\<close> (lines 145 to 162): parse, process and
  delete; whatever is thrown there is caught, and the message is deleted.
\<close>

definition try_message :: "runtime \<Rightarrow> (string \<Rightarrow> bool) \<Rightarrow> message \<Rightarrow> state \<Rightarrow> outcome" where
  "try_message rt service_ok m s =
     (case JSON_parse rt (Body m) of
        None \<Rightarrow> Thrown SyntaxError s
      | Some orderData \<Rightarrow>
          (case processSQSOrder rt orderData s of
             Thrown e s1 \<Rightarrow> Thrown e s1
           | Returned s1 \<Rightarrow> deleteMessage service_ok (ReceiptHandle m) s1))"

definition handle_message :: "runtime \<Rightarrow> (string \<Rightarrow> bool) \<Rightarrow> message \<Rightarrow> state \<Rightarrow> outcome" where
  "handle_message rt service_ok m s =
     (case try_message rt service_ok m s of
        Returned s1 \<Rightarrow> Returned s1
      | Thrown parseError s1 \<Rightarrow> deleteMessage service_ok (ReceiptHandle m) s1)"

fun message_loop :: "runtime \<Rightarrow> (string \<Rightarrow> bool) \<Rightarrow> message list \<Rightarrow> state \<Rightarrow> outcome" where
  "message_loop rt service_ok [] s = Returned s"
| "message_loop rt service_ok (m # rest) s =
     (case handle_message rt service_ok m s of
        Thrown e s1 \<Rightarrow> Thrown e s1
      | Returned s1 \<Rightarrow> message_loop rt service_ok rest s1)"

text \<open>
  One run of \<open>pollSQSMessages\<close> (lines 130 to 170), on what \<open>sqs.receiveMessage\<close> gave:
  \<open>None\<close> when the call failed, the messages otherwise. The outer \<open>catch\<close> logs what is
  thrown and the function returns; the next run is scheduled by \<open>setTimeout\<close> and is
  another call.
\<close>

definition pollSQSMessages :: "runtime \<Rightarrow> (string \<Rightarrow> bool) \<Rightarrow> message list option \<Rightarrow> state \<Rightarrow> state" where
  "pollSQSMessages rt service_ok received s =
     (case received of
        None \<Rightarrow> s
      | Some messages \<Rightarrow>
          (case message_loop rt service_ok messages s of
             Returned s1 \<Rightarrow> s1
           | Thrown e s1 \<Rightarrow> s1))"

section \<open>Change-feed handlers\<close>

text \<open>
  The handlers registered on the channel (lines 205 to 504), in the order of the file.
  Each first builds the key of the event and returns when the dedup store has it.
\<close>

text \<open>
  The first lines of every handler (214 to 218, 239 to 243, 354 to 358, 399 to 403,
  426 to 430, 447 to 451, 491 to 495) are the same but for the table and the operation:
  \<^verbatim>\<open>const eventId = generateEventId(table, event, payload);
if (isDuplicateEvent(eventId)) { console.log(...); return; }\<close>
  \<open>unless_duplicate\<close> is these lines, followed by the rest of the handler.
\<close>

definition unless_duplicate ::
  "runtime \<Rightarrow> int \<Rightarrow> string \<Rightarrow> string \<Rightarrow> payload \<Rightarrow> (state \<Rightarrow> outcome) \<Rightarrow> state \<Rightarrow> outcome" where
  "unless_duplicate rt now table event payload rest s =
     (let eventId = generateEventId rt now table event payload;
          (duplicate, s1) = isDuplicateEvent now eventId s
      in if duplicate then Returned s1 else rest s1)"

text \<open>
  Several handlers read \<open>payload.new\<close> into a variable and then format one message
  from its properties; reading a property throws when the payload has no new image.
\<close>

definition send_about_new :: "(row \<Rightarrow> string) \<Rightarrow> payload \<Rightarrow> state \<Rightarrow> outcome" where
  "send_about_new template payload s =
     (case new payload of
        None \<Rightarrow> Thrown TypeError s
      | Some new_image \<Rightarrow> Returned (sendTelegramMessage (template new_image) s))"

subsection \<open>Users INSERT\<close>

definition Users_INSERT_message :: "runtime \<Rightarrow> row \<Rightarrow> string" where
  "Users_INSERT_message rt user =
     bust @ '' <b>New user registered</b>'' @ nl
     @ ''ID: <code>'' @ ToString rt (lookup user ''id'') @ ''</code>'' @ nl
     @ ''Telegram: @'' @ escapeHtml rt (lookup user ''telegram_username'') @ nl
     @ ''Wallet: <code>'' @ escapeHtml rt (lookup user ''wallet_address'') @ ''</code>'' @ nl
     @ ''Deposited: <b>'' @ fmt rt (lookup user ''amount_deposited'') @ ''</b>'' @ nl
     @ ''Copytrading: <b>''
     @ (if truthy (lookup user ''is_copytrading_enabled'') then ''Enabled'' else ''Disabled'')
     @ ''</b>'' @ nl
     @ ''Referral code: <code>''
     @ escapeHtml rt (js_or (lookup user ''referral_code'') (JStr ''None'')) @ ''</code>'' @ nl
     @ ''Created: <code>'' @ ToString rt (lookup user ''created_at'') @ ''</code>''"

definition Users_INSERT :: "runtime \<Rightarrow> int \<Rightarrow> payload \<Rightarrow> state \<Rightarrow> outcome" where
  "Users_INSERT rt now payload =
     unless_duplicate rt now ''Users'' ''INSERT'' payload
       (send_about_new (Users_INSERT_message rt) payload)"

subsection \<open>Users UPDATE\<close>

text \<open>
  The body of the handler after the guard on the old image is a sequence of six blocks;
  each is a function of the state here, in the order of the source.
\<close>

text \<open>\<open>Number(v || 0)\<close>, the reading of the five numeric columns (lines 258 to 336).\<close>

definition number_or_zero :: "runtime \<Rightarrow> jsval \<Rightarrow> number" where
  "number_or_zero rt v = ToNumber rt (js_or v (JNum (Fin 0)))"

definition deposit_message :: "runtime \<Rightarrow> jsval \<Rightarrow> jsval \<Rightarrow> number \<Rightarrow> number \<Rightarrow> string" where
  "deposit_message rt username uid depositAmount newAmt =
     money_bag @ '' <b>Deposit detected</b>'' @ nl
     @ ''User: @'' @ escapeHtml rt username @ '' (<code>'' @ fmt rt uid @ ''</code>)'' @ nl
     @ ''Amount: <b>+'' @ fmt rt (JNum depositAmount) @ ''</b>'' @ nl
     @ ''New total: <b>'' @ fmt rt (JNum newAmt) @ ''</b>''"


definition deposit_detection :: "runtime \<Rightarrow> row \<Rightarrow> row \<Rightarrow> state \<Rightarrow> state" where
  "deposit_detection rt userNew userOld s =
     (let newAmt = number_or_zero rt (lookup userNew ''amount_deposited'');
          oldAmt = number_or_zero rt (lookup userOld ''amount_deposited'')
      in if num_gt newAmt oldAmt \<and> num_ge oldAmt (Fin 0) then
           (let depositAmount = num_sub newAmt oldAmt
            in if num_gt depositAmount (Fin (1 / 100)) then
                 sendTelegramMessage
                   (deposit_message rt (lookup userNew ''telegram_username'') (lookup userNew ''id'')
                      depositAmount newAmt) s
               else s)
         else s)"

definition pnl_message :: "runtime \<Rightarrow> jsval \<Rightarrow> jsval \<Rightarrow> number \<Rightarrow> number \<Rightarrow> string" where
  "pnl_message rt username uid pnlChange newPnL =
     (if num_gt pnlChange (Fin 0) then chart_up else chart_down)
     @ '' <b>Significant PnL change</b>'' @ nl
     @ ''User: @'' @ escapeHtml rt username @ '' (<code>'' @ fmt rt uid @ ''</code>)'' @ nl
     @ ''Change: <b>'' @ (if num_gt pnlChange (Fin 0) then ''+'' else [])
     @ fmt rt (JNum pnlChange) @ ''</b>'' @ nl
     @ ''Total PnL: <b>'' @ fmt rt (JNum newPnL) @ ''</b>''"

definition pnl_changes :: "runtime \<Rightarrow> row \<Rightarrow> row \<Rightarrow> state \<Rightarrow> state" where
  "pnl_changes rt userNew userOld s =
     (let newPnL = number_or_zero rt (lookup userNew ''total_pnl'');
          oldPnL = number_or_zero rt (lookup userOld ''total_pnl'');
          pnlChange = num_sub newPnL oldPnL
      in if num_ge (Math_abs pnlChange) (Fin 100) then
           sendTelegramMessage
             (pnl_message rt (lookup userNew ''telegram_username'') (lookup userNew ''id'')
                pnlChange newPnL) s
         else s)"

definition volume_message :: "runtime \<Rightarrow> jsval \<Rightarrow> jsval \<Rightarrow> number \<Rightarrow> number \<Rightarrow> string" where
  "volume_message rt username uid milestone current =
     direct_hit @ '' <b>Volume milestone reached!</b>'' @ nl
     @ ''User: @'' @ escapeHtml rt username @ '' (<code>'' @ fmt rt uid @ ''</code>)'' @ nl
     @ ''Milestone: <b>$'' @ Number_toLocaleString rt milestone @ ''</b>'' @ nl
     @ ''Current volume: <b>$'' @ fmt rt (JNum current) @ ''</b>''"

text \<open>\<open>if (msg) send(msg)\<close>: a string is sent when it is not empty.\<close>

definition send_if_message :: "string option \<times> state \<Rightarrow> state" where
  "send_if_message r =
     (case r of
        (None, s) \<Rightarrow> s
      | (Some msg, s) \<Rightarrow> if msg \<noteq> [] then sendTelegramMessage msg s else s)"

definition volume_milestones :: "runtime \<Rightarrow> row \<Rightarrow> row \<Rightarrow> state \<Rightarrow> state" where
  "volume_milestones rt userNew userOld s =
     (let newVolume = number_or_zero rt (lookup userNew ''total_volume'');
          oldVolume = number_or_zero rt (lookup userOld ''total_volume'')
      in send_if_message
           (checkAndNotifyMilestone rt (lookup userNew ''id'') ''volume'' oldVolume newVolume
              volumeMilestones
              (volume_message rt (lookup userNew ''telegram_username'') (lookup userNew ''id'')) s))"

definition txn_message :: "runtime \<Rightarrow> row \<Rightarrow> number \<Rightarrow> number \<Rightarrow> string" where
  "txn_message rt userNew milestone current =
     trophy @ '' <b>Trading milestone reached!</b>'' @ nl
     @ ''User: @'' @ escapeHtml rt (lookup userNew ''telegram_username'')
     @ '' (<code>'' @ fmt rt (lookup userNew ''id'') @ ''</code>)'' @ nl
     @ ''Transactions: <b>'' @ fmt rt (JNum current) @ ''</b>'' @ nl
     @ ''Markets traded: <b>'' @ fmt rt (lookup userNew ''markets_traded'') @ ''</b>''"

definition txn_milestones :: "runtime \<Rightarrow> row \<Rightarrow> row \<Rightarrow> state \<Rightarrow> state" where
  "txn_milestones rt userNew userOld s =
     (let newTxns = number_or_zero rt (lookup userNew ''txns_executed'');
          oldTxns = number_or_zero rt (lookup userOld ''txns_executed'')
      in send_if_message
           (checkAndNotifyMilestone rt (lookup userNew ''id'') ''txns'' oldTxns newTxns
              txnMilestones (txn_message rt userNew) s))"

definition copytrading_message :: "runtime \<Rightarrow> jsval \<Rightarrow> jsval \<Rightarrow> bool \<Rightarrow> string" where
  "copytrading_message rt username uid newCopytrading =
     (if newCopytrading then arrows_circle else pause_button)
     @ '' <b>Copytrading '' @ (if newCopytrading then ''enabled'' else ''disabled'') @ ''</b>'' @ nl
     @ ''User: @'' @ escapeHtml rt username @ '' (<code>'' @ fmt rt uid @ ''</code>)''"

definition copytrading_changes :: "runtime \<Rightarrow> row \<Rightarrow> row \<Rightarrow> state \<Rightarrow> state" where
  "copytrading_changes rt userNew userOld s =
     (if has_key ''is_copytrading_enabled'' userOld then
        (let newCopytrading = truthy (lookup userNew ''is_copytrading_enabled'');
             oldCopytrading = truthy (lookup userOld ''is_copytrading_enabled'')
         in if newCopytrading \<noteq> oldCopytrading then
              sendTelegramMessage
                (copytrading_message rt (lookup userNew ''telegram_username'') (lookup userNew ''id'')
                   newCopytrading) s
            else s)
      else s)"

definition fees_message :: "runtime \<Rightarrow> jsval \<Rightarrow> jsval \<Rightarrow> number \<Rightarrow> number \<Rightarrow> string" where
  "fees_message rt username uid feeIncrease newFees =
     money_wings @ '' <b>High fees incurred</b>'' @ nl
     @ ''User: @'' @ escapeHtml rt username @ '' (<code>'' @ fmt rt uid @ ''</code>)'' @ nl
     @ ''Session fees: <b>$'' @ fmt rt (JNum feeIncrease) @ ''</b>'' @ nl
     @ ''Total fees: <b>$'' @ fmt rt (JNum newFees) @ ''</b>''"

definition fee_alerts :: "runtime \<Rightarrow> row \<Rightarrow> row \<Rightarrow> state \<Rightarrow> state" where
  "fee_alerts rt userNew userOld s =
     (let newFees = number_or_zero rt (lookup userNew ''fees_total'');
          oldFees = number_or_zero rt (lookup userOld ''fees_total'');
          feeIncrease = num_sub newFees oldFees
      in if num_ge feeIncrease (Fin 50) then
           sendTelegramMessage
             (fees_message rt (lookup userNew ''telegram_username'') (lookup userNew ''id'')
                feeIncrease newFees) s
         else s)"

text \<open>\<open>payload.old || {}\<close>.\<close>

definition old_or_empty :: "payload \<Rightarrow> row" where
  "old_or_empty payload = (case old payload of None \<Rightarrow> [] | Some r \<Rightarrow> r)"

definition Users_UPDATE_rest :: "runtime \<Rightarrow> payload \<Rightarrow> state \<Rightarrow> outcome" where
  "Users_UPDATE_rest rt payload s1 =
     (case new payload of
        None \<Rightarrow> Thrown TypeError s1
      | Some userNew \<Rightarrow>
          (let userOld = old_or_empty payload;
               hasRelevantOldData = (length (Object_keys userOld) > 1)
           in if \<not> hasRelevantOldData then Returned s1
              else
                (let s2 = deposit_detection rt userNew userOld s1;
                     s3 = pnl_changes rt userNew userOld s2;
                     s4 = volume_milestones rt userNew userOld s3;
                     s5 = txn_milestones rt userNew userOld s4;
                     s6 = copytrading_changes rt userNew userOld s5;
                     s7 = fee_alerts rt userNew userOld s6
                 in Returned s7)))"

definition Users_UPDATE :: "runtime \<Rightarrow> int \<Rightarrow> payload \<Rightarrow> state \<Rightarrow> outcome" where
  "Users_UPDATE rt now payload =
     unless_duplicate rt now ''Users'' ''UPDATE'' payload (Users_UPDATE_rest rt payload)"

subsection \<open>Auto\_Trade\<close>

definition trade_executed_message :: "runtime \<Rightarrow> row \<Rightarrow> string" where
  "trade_executed_message rt trade =
     check_mark @ '' <b>Trade executed successfully</b>'' @ nl
     @ ''User: <code>'' @ escapeHtml rt (JStr (fmt rt (lookup trade ''user_id''))) @ ''</code>'' @ nl
     @ ''Market: <b>'' @ escapeHtml rt (lookup trade ''market_title'') @ ''</b>'' @ nl
     @ ''Side: <b>'' @ escapeHtml rt (lookup trade ''side'') @ ''</b>'' @ nl
     @ ''Size: <b>'' @ fmt rt (js_or (lookup trade ''copied_size'') (lookup trade ''original_size''))
     @ ''</b> @ <b>''
     @ fmt rt (js_or (lookup trade ''copied_price'') (lookup trade ''original_price'')) @ ''</b>'' @ nl
     @ ''Trade hash: <code>'' @ escapeHtml rt (lookup trade ''copied_trade_hash'') @ ''</code>''"

definition trade_failed_message :: "runtime \<Rightarrow> row \<Rightarrow> string" where
  "trade_failed_message rt trade =
     cross_mark @ '' <b>Trade failed</b>'' @ nl
     @ ''User: <code>'' @ escapeHtml rt (JStr (fmt rt (lookup trade ''user_id''))) @ ''</code>'' @ nl
     @ ''Market: <b>'' @ escapeHtml rt (lookup trade ''market_title'') @ ''</b>'' @ nl
     @ ''Side: <b>'' @ escapeHtml rt (lookup trade ''side'') @ ''</b>'' @ nl
     @ ''Error: <code>''
     @ escapeHtml rt (js_or (lookup trade ''error_message'') (JStr ''Unknown error'')) @ ''</code>'' @ nl
     @ ''Original hash: <code>'' @ escapeHtml rt (lookup trade ''original_trade_hash'') @ ''</code>''"

definition trade_skipped_message :: "runtime \<Rightarrow> row \<Rightarrow> string" where
  "trade_skipped_message rt trade =
     next_track @ '' <b>Trade skipped</b>'' @ nl
     @ ''User: <code>'' @ escapeHtml rt (JStr (fmt rt (lookup trade ''user_id''))) @ ''</code>'' @ nl
     @ ''Market: <b>'' @ escapeHtml rt (lookup trade ''market_title'') @ ''</b>'' @ nl
     @ ''Reason: <code>''
     @ escapeHtml rt (js_or (lookup trade ''error_message'') (JStr ''Trade conditions not met''))
     @ ''</code>''"

definition Auto_Trade_UPDATE_rest :: "runtime \<Rightarrow> payload \<Rightarrow> state \<Rightarrow> outcome" where
  "Auto_Trade_UPDATE_rest rt payload s1 =
     (let status = toLowerCase (ToString rt (js_or (opt_lookup (new payload) ''status'') (JStr [])));
          prevStatus = toLowerCase (ToString rt (js_or (opt_lookup (old payload) ''status'') (JStr [])))
      in if status \<noteq> prevStatus then
           (if status = ''executed'' then send_about_new (trade_executed_message rt) payload s1
            else if status = ''failed'' then send_about_new (trade_failed_message rt) payload s1
            else if status = ''skipped'' then send_about_new (trade_skipped_message rt) payload s1
            else Returned s1)
         else Returned s1)"

definition Auto_Trade_UPDATE :: "runtime \<Rightarrow> int \<Rightarrow> payload \<Rightarrow> state \<Rightarrow> outcome" where
  "Auto_Trade_UPDATE rt now payload =
     unless_duplicate rt now ''Auto_Trade'' ''UPDATE'' payload (Auto_Trade_UPDATE_rest rt payload)"

definition Auto_Trade_INSERT_message :: "runtime \<Rightarrow> row \<Rightarrow> string" where
  "Auto_Trade_INSERT_message rt t =
     new_button @ '' <b>New trade detected</b>'' @ nl
     @ ''User: <code>'' @ escapeHtml rt (JStr (fmt rt (lookup t ''user_id''))) @ ''</code>'' @ nl
     @ ''Market: <b>'' @ escapeHtml rt (lookup t ''market_title'') @ ''</b>'' @ nl
     @ ''Outcome: <b>'' @ escapeHtml rt (lookup t ''outcome'') @ ''</b>'' @ nl
     @ ''Side: <b>'' @ escapeHtml rt (lookup t ''side'') @ ''</b>'' @ nl
     @ ''Original hash: <code>'' @ escapeHtml rt (lookup t ''original_trade_hash'') @ ''</code>'' @ nl
     @ ''Size: <b>'' @ escapeHtml rt (JStr (fmt rt (lookup t ''original_size''))) @ ''</b> @ <b>''
     @ escapeHtml rt (JStr (fmt rt (lookup t ''original_price''))) @ ''</b>'' @ nl
     @ ''Position %: <b>'' @ fmt rt (lookup t ''position_percentage'') @ ''%</b>'' @ nl
     @ ''Status: <b>'' @ escapeHtml rt (lookup t ''status'') @ ''</b>'' @ nl
     @ ''Watched wallet: <code>'' @ escapeHtml rt (lookup t ''watched_wallet'') @ ''</code>''"

definition Auto_Trade_INSERT :: "runtime \<Rightarrow> int \<Rightarrow> payload \<Rightarrow> state \<Rightarrow> outcome" where
  "Auto_Trade_INSERT rt now payload =
     unless_duplicate rt now ''Auto_Trade'' ''INSERT'' payload
       (send_about_new (Auto_Trade_INSERT_message rt) payload)"

subsection \<open>Copy\_Wallets\<close>

text \<open>\<open>v * 100\<close>, for a column \<open>v\<close>.\<close>

definition times_100 :: "runtime \<Rightarrow> jsval \<Rightarrow> jsval" where
  "times_100 rt v = JNum (num_mul (ToNumber rt v) (Fin 100))"

definition Copy_Wallets_INSERT_message :: "runtime \<Rightarrow> row \<Rightarrow> string" where
  "Copy_Wallets_INSERT_message rt wallet =
     eye @ '' <b>New wallet added for copying</b>'' @ nl
     @ ''User: <code>'' @ escapeHtml rt (JStr (fmt rt (lookup wallet ''user_id''))) @ ''</code>'' @ nl
     @ ''Wallet: <code>'' @ escapeHtml rt (lookup wallet ''wallet_address'') @ ''</code>'' @ nl
     @ ''Copy ratio: <b>'' @ fmt rt (times_100 rt (lookup wallet ''percent_ratio'')) @ ''%</b>'' @ nl
     @ ''Status: <b>'' @ (if truthy (lookup wallet ''is_enabled'') then ''Enabled'' else ''Disabled'')
     @ ''</b>''"

definition Copy_Wallets_INSERT :: "runtime \<Rightarrow> int \<Rightarrow> payload \<Rightarrow> state \<Rightarrow> outcome" where
  "Copy_Wallets_INSERT rt now payload =
     unless_duplicate rt now ''Copy_Wallets'' ''INSERT'' payload
       (send_about_new (Copy_Wallets_INSERT_message rt) payload)"

definition wallet_enabled_message :: "runtime \<Rightarrow> row \<Rightarrow> string" where
  "wallet_enabled_message rt walletNew =
     (if truthy (lookup walletNew ''is_enabled'') then check_mark else cross_mark)
     @ '' <b>Copy wallet ''
     @ (if truthy (lookup walletNew ''is_enabled'') then ''enabled'' else ''disabled'') @ ''</b>'' @ nl
     @ ''User: <code>'' @ escapeHtml rt (JStr (fmt rt (lookup walletNew ''user_id''))) @ ''</code>'' @ nl
     @ ''Wallet: <code>'' @ escapeHtml rt (lookup walletNew ''wallet_address'') @ ''</code>'' @ nl
     @ ''Copy ratio: <b>'' @ fmt rt (times_100 rt (lookup walletNew ''percent_ratio'')) @ ''%</b>''"

definition ratio_message :: "runtime \<Rightarrow> row \<Rightarrow> jsval \<Rightarrow> jsval \<Rightarrow> string" where
  "ratio_message rt walletNew oldRatio newRatio =
     gear @ '' <b>Copy ratio updated</b>'' @ nl
     @ ''User: <code>'' @ escapeHtml rt (JStr (fmt rt (lookup walletNew ''user_id''))) @ ''</code>'' @ nl
     @ ''Wallet: <code>'' @ escapeHtml rt (lookup walletNew ''wallet_address'') @ ''</code>'' @ nl
     @ ''Old ratio: <b>'' @ fmt rt (times_100 rt oldRatio) @ ''%</b> '' @ right_arrow @ '' <b>''
     @ fmt rt (times_100 rt newRatio) @ ''%</b>''"

definition Copy_Wallets_UPDATE_rest :: "runtime \<Rightarrow> payload \<Rightarrow> state \<Rightarrow> outcome" where
  "Copy_Wallets_UPDATE_rest rt payload s1 =
     (let walletOld = old_or_empty payload
      in if length (Object_keys walletOld) \<le> 1 then Returned s1
         else case new payload of
                None \<Rightarrow> Thrown TypeError s1
              | Some walletNew \<Rightarrow>
                  (let newEnabled = lookup walletNew ''is_enabled'';
                       oldEnabled = lookup walletOld ''is_enabled'';
                       newRatio = lookup walletNew ''percent_ratio'';
                       oldRatio = lookup walletOld ''percent_ratio''
                   in if \<not> strict_eq newEnabled oldEnabled then
                        Returned (sendTelegramMessage (wallet_enabled_message rt walletNew) s1)
                      else if num_gt (Math_abs (num_sub (ToNumber rt newRatio) (ToNumber rt oldRatio)))
                                (Fin (1 / 1000)) then
                        Returned (sendTelegramMessage (ratio_message rt walletNew oldRatio newRatio) s1)
                      else Returned s1))"

definition Copy_Wallets_UPDATE :: "runtime \<Rightarrow> int \<Rightarrow> payload \<Rightarrow> state \<Rightarrow> outcome" where
  "Copy_Wallets_UPDATE rt now payload =
     unless_duplicate rt now ''Copy_Wallets'' ''UPDATE'' payload (Copy_Wallets_UPDATE_rest rt payload)"

subsection \<open>Monthly\_Active\_Users INSERT\<close>

definition Monthly_Active_Users_INSERT_message :: "runtime \<Rightarrow> row \<Rightarrow> string" where
  "Monthly_Active_Users_INSERT_message rt record_new =
     bar_chart @ '' <b>Monthly active user recorded</b>'' @ nl
     @ ''User: <code>'' @ escapeHtml rt (JStr (fmt rt (lookup record_new ''user_id''))) @ ''</code>'' @ nl
     @ ''Month: <b>'' @ ToString rt (lookup record_new ''month_number'') @ ''/''
     @ ToString rt (lookup record_new ''year'') @ ''</b>'' @ nl
     @ ''Transactions: <b>'' @ fmt rt (lookup record_new ''transaction_count'') @ ''</b>''"

definition Monthly_Active_Users_INSERT :: "runtime \<Rightarrow> int \<Rightarrow> payload \<Rightarrow> state \<Rightarrow> outcome" where
  "Monthly_Active_Users_INSERT rt now payload =
     unless_duplicate rt now ''Monthly_Active_Users'' ''INSERT'' payload
       (send_about_new (Monthly_Active_Users_INSERT_message rt) payload)"

section \<open>The bot as a whole\<close>

text \<open>
  The registrations of the channel: the tables, the operations, and the handler of each
  pair. Monthly\_Active\_Users has a handler for INSERT only; an UPDATE of it is not
  subscribed to and changes nothing.
\<close>

datatype table = Users | Auto_Trade | Copy_Wallets | Monthly_Active_Users

datatype event = INSERT | UPDATE

fun table_name :: "table \<Rightarrow> string" where
  "table_name Users = ''Users''"
| "table_name Auto_Trade = ''Auto_Trade''"
| "table_name Copy_Wallets = ''Copy_Wallets''"
| "table_name Monthly_Active_Users = ''Monthly_Active_Users''"

fun event_name :: "event \<Rightarrow> string" where
  "event_name INSERT = ''INSERT''"
| "event_name UPDATE = ''UPDATE''"

fun on_change :: "runtime \<Rightarrow> int \<Rightarrow> table \<Rightarrow> event \<Rightarrow> payload \<Rightarrow> state \<Rightarrow> outcome" where
  "on_change rt now Users INSERT payload s = Users_INSERT rt now payload s"
| "on_change rt now Users UPDATE payload s = Users_UPDATE rt now payload s"
| "on_change rt now Auto_Trade UPDATE payload s = Auto_Trade_UPDATE rt now payload s"
| "on_change rt now Auto_Trade INSERT payload s = Auto_Trade_INSERT rt now payload s"
| "on_change rt now Copy_Wallets INSERT payload s = Copy_Wallets_INSERT rt now payload s"
| "on_change rt now Copy_Wallets UPDATE payload s = Copy_Wallets_UPDATE rt now payload s"
| "on_change rt now Monthly_Active_Users INSERT payload s = Monthly_Active_Users_INSERT rt now payload s"
| "on_change rt now Monthly_Active_Users UPDATE payload s = Returned s"

text \<open>The key a delivery is checked under.\<close>

definition key_of :: "runtime \<Rightarrow> int \<Rightarrow> table \<Rightarrow> event \<Rightarrow> payload \<Rightarrow> string" where
  "key_of rt now table event payload =
     generateEventId rt now (table_name table) (event_name event) payload"

text \<open>
  What happens to the process, each with the clock: a change event is delivered, or the
  sweep timer fires. A run handles a list of them in order and stops at a throw. A
  handler runs to its end before the next occurrence is handled: the only points where
  it yields are the calls to the chat, after each of which it goes on with the state as
  it left it, and the dedup check and the milestone check are made without yielding.
\<close>

datatype occurrence = Delivery int table event payload | Tick int

fun step :: "runtime \<Rightarrow> occurrence \<Rightarrow> state \<Rightarrow> outcome" where
  "step rt (Delivery now table event payload) s = on_change rt now table event payload s"
| "step rt (Tick now) s = Returned (sweep now s)"

fun run :: "runtime \<Rightarrow> occurrence list \<Rightarrow> state \<Rightarrow> outcome" where
  "run rt [] s = Returned s"
| "run rt (e # es) s =
     (case step rt e s of
        Thrown err s1 \<Rightarrow> Thrown err s1
      | Returned s1 \<Rightarrow> run rt es s1)"

text \<open>The state when the module has loaded: both maps empty, nothing sent.\<close>

definition initial_state :: state where
  "initial_state = \<lparr>processedEvents = Map.empty, milestoneCache = Map.empty, sent = [], deleted = []\<rparr>"

text \<open>The state an outcome leaves.\<close>

fun state_of :: "outcome \<Rightarrow> state" where
  "state_of (Returned s) = s"
| "state_of (Thrown e s) = s"

fun time_of :: "occurrence \<Rightarrow> int" where
  "time_of (Delivery now table event payload) = now"
| "time_of (Tick now) = now"


section \<open>Sample inputs\<close>

text \<open>
  A concrete event, for the examples below: a sign-up with a creation time, so that its
  key does not depend on the clock.
\<close>

definition signup :: payload where
  "signup = \<lparr>new = Some [(''id'', JStr ''u1''), (''telegram_username'', JStr ''ann''),
                          (''created_at'', JStr ''2024-05-01T10:00:00Z'')],
             old = None\<rparr>"

text \<open>
  A runtime to run the examples with: it prints and reads the numbers of the examples as
  JavaScript does (a string that is not in its table is not a numeral), encodes in
  Base64, and parses the bodies the examples use.
\<close>

definition base64_alphabet :: string where
  "base64_alphabet = ''ABCDEFGHIJKLMNOPQRSTUVWXYZabcdefghijklmnopqrstuvwxyz0123456789+/''"

fun base64_bytes :: "nat list \<Rightarrow> string" where
  "base64_bytes [] = []"
| "base64_bytes [a] =
     [base64_alphabet ! (a div 4), base64_alphabet ! ((a mod 4) * 16), CHR ''='', CHR ''='']"
| "base64_bytes [a, b] =
     [base64_alphabet ! (a div 4), base64_alphabet ! ((a mod 4) * 16 + b div 16),
      base64_alphabet ! ((b mod 16) * 4), CHR ''='']"
| "base64_bytes (a # b # c # rest) =
     [base64_alphabet ! (a div 4), base64_alphabet ! ((a mod 4) * 16 + b div 16),
      base64_alphabet ! ((b mod 16) * 4 + c div 64), base64_alphabet ! (c mod 64)]
     @ base64_bytes rest"

definition sample_runtime :: runtime where
  "sample_runtime =
     \<lparr>Number_toString =
        (\<lambda>n. case map_of [(Fin 0, ''0''), (Fin (1 / 100), ''0.01''), (Fin (1 / 50), ''0.02''),
                            (Fin 1, ''1''), (Fin 900, ''900''), (Fin 1200, ''1200'')] n of
               None \<Rightarrow> ''NaN''
             | Some printed \<Rightarrow> printed),
      Number_toLocaleString =
        (\<lambda>n. case map_of [(Fin 1000, ''1,000''), (Fin 5000, ''5,000'')] n of
               None \<Rightarrow> ''NaN''
             | Some printed \<Rightarrow> printed),
      StringToNumber =
        (\<lambda>str. case map_of [(''0.02'', Fin (1 / 50)), (''1200'', Fin 1200)] str of
               None \<Rightarrow> NaN
             | Some n \<Rightarrow> n),
      base64 = (\<lambda>str. base64_bytes (map of_char str)),
      JSON_parse =
        (\<lambda>str. if str = ''{}'' then Some (PObj [])
                else if str = ''null'' then Some PNull
                else None)\<rparr>"


text \<open>A queue service whose delete calls all succeed.\<close>

definition service_up :: "string \<Rightarrow> bool" where
  "service_up handle = True"

section \<open>Properties of the milestone tracker\<close>

lemma num_lt_trans: "num_lt a b \<Longrightarrow> num_lt b c \<Longrightarrow> num_lt a c"
  by (cases a; cases b; cases c) auto

lemma num_ge_lt_trans: "num_ge n b \<Longrightarrow> num_lt a b \<Longrightarrow> num_ge n a"
  by (cases a; cases b; cases n) auto

lemma milestone_loop_find:
  assumes "\<forall>m\<in>set ms. num_lt ov m \<and> num_ge nv m"
  shows "milestone_loop k l ov nv ms g s =
           (case find (\<lambda>m. num_gt m l) ms of
              None \<Rightarrow> (None, s)
            | Some t \<Rightarrow> (Some (g t nv), s\<lparr>milestoneCache := (milestoneCache s)(k \<mapsto> t)\<rparr>))"
  using assms by (induction ms) auto

lemma ascending_all_crossed:
  assumes "sorted_wrt num_lt ms" "ms \<noteq> []" "num_lt ov (hd ms)" "num_ge nv (last ms)"
  shows "\<forall>m\<in>set ms. num_lt ov m \<and> num_ge nv m"
proof
  fix m assume m: "m \<in> set ms"
  obtain x xs where ms: "ms = x # xs" using assms(2) by (cases ms) auto
  have lo: "num_lt ov m"
  proof (cases "m = x")
    case True then show ?thesis using assms(3) ms by simp
  next
    case False
    then have "num_lt x m" using assms(1) m ms by auto
    then show ?thesis using assms(3) ms num_lt_trans by auto
  qed
  have hi: "num_ge nv m"
  proof (cases "m = last ms")
    case True then show ?thesis using assms(4) by simp
  next
    case False
    obtain i where i: "i < length ms" "ms ! i = m" using m by (auto simp: in_set_conv_nth)
    have "i < length ms - 1" using False i assms(2) by (cases "i = length ms - 1") (auto simp: last_conv_nth)
    then have "num_lt (ms ! i) (ms ! (length ms - 1))"
      using assms(1) by (auto simp: sorted_wrt_iff_nth_less)
    then have "num_lt m (last ms)" using i assms(2) by (simp add: last_conv_nth)
    then show ?thesis using assms(4) num_ge_lt_trans by blast
  qed
  show "num_lt ov m \<and> num_ge nv m" using lo hi by simp
qed






text \<open>
  Claim C5. A single update whose old value is below the lowest threshold of an ascending
  ladder and whose new value is at or above the highest, when the recorded high-water mark
  (an absent one counting as 0, as in the code) is below the highest threshold, returns
  exactly one message: the one generated for the lowest threshold above that mark, which
  is recorded. When the mark is below the whole ladder, that is the lowest threshold of
  the ladder.
\<close>

theorem big_jump_notifies_lowest_threshold:
  assumes asc: "sorted_wrt num_lt ms" and ne: "ms \<noteq> []"
      and lo: "num_lt oldValue (hd ms)" and hi: "num_ge newValue (last ms)"
      and mark: "num_lt (lastNotified_of (milestoneCache s (cacheKey_of rt userId metric))) (last ms)"
  shows "\<exists>t. checkAndNotifyMilestone rt userId metric oldValue newValue ms g s =
               (Some (g t newValue),
                s\<lparr>milestoneCache := (milestoneCache s)(cacheKey_of rt userId metric \<mapsto> t)\<rparr>)
           \<and> t \<in> set ms
           \<and> num_gt t (lastNotified_of (milestoneCache s (cacheKey_of rt userId metric)))
           \<and> (\<forall>m\<in>set ms. num_gt m (lastNotified_of (milestoneCache s (cacheKey_of rt userId metric)))
                  \<longrightarrow> m = t \<or> num_lt t m)
           \<and> (num_lt (lastNotified_of (milestoneCache s (cacheKey_of rt userId metric))) (hd ms)
                  \<longrightarrow> t = hd ms)"
proof -
  let ?k = "cacheKey_of rt userId metric"
  let ?l = "lastNotified_of (milestoneCache s ?k)"
  have all: "\<forall>m\<in>set ms. num_lt oldValue m \<and> num_ge newValue m"
    using ascending_all_crossed[OF asc ne lo hi] .
  have "last ms \<in> set ms" using ne by simp
  then have ex: "\<exists>m\<in>set ms. num_gt m ?l" using mark by (auto simp: num_gt_def)
  then obtain t where f: "find (\<lambda>m. num_gt m ?l) ms = Some t"
    by (cases "find (\<lambda>m. num_gt m ?l) ms") (auto simp: find_None_iff)
  then obtain i where i: "i < length ms" "num_gt (ms ! i) ?l" "t = ms ! i"
      "\<forall>j<i. \<not> num_gt (ms ! j) ?l"
    by (auto simp: find_Some_iff)
  have res: "checkAndNotifyMilestone rt userId metric oldValue newValue ms g s =
               (Some (g t newValue), s\<lparr>milestoneCache := (milestoneCache s)(?k \<mapsto> t)\<rparr>)"
    using milestone_loop_find[OF all, of ?k ?l g s] f
    by (simp add: checkAndNotifyMilestone_def Let_def)
  have least: "\<forall>m\<in>set ms. num_gt m ?l \<longrightarrow> m = t \<or> num_lt t m"
  proof (intro ballI impI)
    fix m assume m: "m \<in> set ms" "num_gt m ?l"
    then obtain j where j: "j < length ms" "ms ! j = m" by (auto simp: in_set_conv_nth)
    have "\<not> j < i" using i(4) j m by auto
    then consider "j = i" | "i < j" by linarith
    then show "m = t \<or> num_lt t m"
    proof cases
      case 1 then show ?thesis using i j by simp
    next
      case 2
      then have "num_lt (ms ! i) (ms ! j)" using asc j by (auto simp: sorted_wrt_iff_nth_less)
      then show ?thesis using i j by simp
    qed
  qed
  have first: "num_lt ?l (hd ms) \<longrightarrow> t = hd ms"
  proof
    assume "num_lt ?l (hd ms)"
    then have "num_gt (ms ! 0) ?l" using ne by (simp add: num_gt_def hd_conv_nth)
    then have "i = 0" using i(4) by (cases i) auto
    then show "t = hd ms" using i ne by (simp add: hd_conv_nth)
  qed
  show ?thesis using res i(1,2,3) least first by (intro exI[of _ t]) auto
qed

theorem big_jump_notifies_lowest_threshold_witness:
  "\<forall>rt. sorted_wrt num_lt volumeMilestones \<and> volumeMilestones \<noteq> []
     \<and> num_lt (Fin 900) (hd volumeMilestones) \<and> num_ge (Fin 250000) (last volumeMilestones)
     \<and> num_lt (lastNotified_of (milestoneCache initial_state (cacheKey_of rt (JStr ''u1'') ''volume'')))
          (last volumeMilestones)
     \<and> checkAndNotifyMilestone rt (JStr ''u1'') ''volume'' (Fin 900) (Fin 250000) volumeMilestones Pair
          initial_state
        = (Some (Fin 1000, Fin 250000),
           initial_state\<lparr>milestoneCache := [''u1:volume'' \<mapsto> Fin 1000]\<rparr>)"
proof
  fix rt
  have h: "sorted_wrt num_lt volumeMilestones" "volumeMilestones \<noteq> []"
    "num_lt (Fin 900) (hd volumeMilestones)" "num_ge (Fin 250000) (last volumeMilestones)"
    "num_lt (lastNotified_of (milestoneCache initial_state (cacheKey_of rt (JStr ''u1'') ''volume'')))
       (last volumeMilestones)"
    by (simp_all add: volumeMilestones_def initial_state_def lastNotified_of_def)
  have first: "num_lt (lastNotified_of (milestoneCache initial_state (cacheKey_of rt (JStr ''u1'') ''volume'')))
       (hd volumeMilestones)"
    by (simp add: volumeMilestones_def initial_state_def lastNotified_of_def)
  from big_jump_notifies_lowest_threshold[OF h, of Pair] first
  have "checkAndNotifyMilestone rt (JStr ''u1'') ''volume'' (Fin 900) (Fin 250000) volumeMilestones Pair
          initial_state
        = (Some (hd volumeMilestones, Fin 250000),
           initial_state\<lparr>milestoneCache :=
             (milestoneCache initial_state)(cacheKey_of rt (JStr ''u1'') ''volume'' \<mapsto> hd volumeMilestones)\<rparr>)"
    by auto
  then show "sorted_wrt num_lt volumeMilestones \<and> volumeMilestones \<noteq> []
     \<and> num_lt (Fin 900) (hd volumeMilestones) \<and> num_ge (Fin 250000) (last volumeMilestones)
     \<and> num_lt (lastNotified_of (milestoneCache initial_state (cacheKey_of rt (JStr ''u1'') ''volume'')))
          (last volumeMilestones)
     \<and> checkAndNotifyMilestone rt (JStr ''u1'') ''volume'' (Fin 900) (Fin 250000) volumeMilestones Pair
          initial_state
        = (Some (Fin 1000, Fin 250000),
           initial_state\<lparr>milestoneCache := [''u1:volume'' \<mapsto> Fin 1000]\<rparr>)"
    using h by (simp add: volumeMilestones_def initial_state_def cacheKey_of_def)
qed




text \<open>
  Claim C1. The sweep reads the value of a milestone entry as a time, but the value is
  the threshold: \<open>now - 1000 > 3600000\<close> holds at any time of this century, so the entry a
  Users UPDATE records is removed by a tick thirty seconds later.
\<close>

theorem sweep_removes_fresh_milestone:
  "\<forall>rt. milestoneCache (state_of (run rt
            [Delivery 1700000000000 Users UPDATE
               \<lparr>new = Some [(''id'', JStr ''u1''), (''total_volume'', JNum (Fin 1200))],
                old = Some [(''id'', JStr ''u1''), (''total_volume'', JNum (Fin 900))]\<rparr>]
            initial_state)) ''u1:volume'' = Some (Fin 1000)
       \<and> milestoneCache (state_of (run rt
            [Delivery 1700000000000 Users UPDATE
               \<lparr>new = Some [(''id'', JStr ''u1''), (''total_volume'', JNum (Fin 1200))],
                old = Some [(''id'', JStr ''u1''), (''total_volume'', JNum (Fin 900))]\<rparr>,
             Tick 1700000030000]
            initial_state)) ''u1:volume'' = None"
  by (simp add: Users_UPDATE_def unless_duplicate_def isDuplicateEvent_def
        Users_UPDATE_rest_def old_or_empty_def Object_keys_def initial_state_def
        deposit_detection_def pnl_changes_def volume_milestones_def txn_milestones_def number_or_zero_def
        copytrading_changes_def fee_alerts_def lookup_def js_or_def num_gt_def has_key_def
        checkAndNotifyMilestone_def cacheKey_of_def lastNotified_of_def volumeMilestones_def
        txnMilestones_def send_if_message_def sendTelegramMessage_def sweep_def evict_def Let_def)

section \<open>Properties of the dedup store\<close>

lemma unless_duplicate_seen:
  "processedEvents s (generateEventId rt now table event payload) \<noteq> None \<Longrightarrow>
     unless_duplicate rt now table event payload rest s = Returned s"
  by (simp add: unless_duplicate_def isDuplicateEvent_def)

lemma unless_duplicate_new:
  "processedEvents s (generateEventId rt now table event payload) = None \<Longrightarrow>
     unless_duplicate rt now table event payload rest s =
       rest (s\<lparr>processedEvents :=
          (processedEvents s)(generateEventId rt now table event payload \<mapsto> Fin (of_int now))\<rparr>)"
  by (simp add: unless_duplicate_def isDuplicateEvent_def)

lemma sendTelegramMessage_processedEvents [simp]:
  "processedEvents (sendTelegramMessage m s) = processedEvents s"
  by (simp add: sendTelegramMessage_def)

lemma send_about_new_processedEvents [simp]:
  "processedEvents (state_of (send_about_new template payload s)) = processedEvents s"
  by (simp add: send_about_new_def split: option.split)

lemma milestone_loop_processedEvents [simp]:
  "processedEvents (snd (milestone_loop k l ov nv ms g s)) = processedEvents s"
  by (induction ms) auto

lemma send_if_message_processedEvents [simp]:
  "processedEvents (send_if_message r) = processedEvents (snd r)"
  by (cases r) (simp add: send_if_message_def split: option.split)

lemma checkAndNotifyMilestone_processedEvents [simp]:
  "processedEvents (snd (checkAndNotifyMilestone rt u mt ov nv ms g s)) = processedEvents s"
  by (simp add: checkAndNotifyMilestone_def Let_def)

lemma blocks_processedEvents [simp]:
  "processedEvents (deposit_detection rt n ol s) = processedEvents s"
  "processedEvents (pnl_changes rt n ol s) = processedEvents s"
  "processedEvents (volume_milestones rt n ol s) = processedEvents s"
  "processedEvents (txn_milestones rt n ol s) = processedEvents s"
  "processedEvents (copytrading_changes rt n ol s) = processedEvents s"
  "processedEvents (fee_alerts rt n ol s) = processedEvents s"
  by (simp_all add: deposit_detection_def pnl_changes_def volume_milestones_def txn_milestones_def
        copytrading_changes_def fee_alerts_def Let_def)

lemma Users_UPDATE_rest_processedEvents [simp]:
  "processedEvents (state_of (Users_UPDATE_rest rt payload s)) = processedEvents s"
  by (simp add: Users_UPDATE_rest_def Let_def split: option.split)

lemma Auto_Trade_UPDATE_rest_processedEvents [simp]:
  "processedEvents (state_of (Auto_Trade_UPDATE_rest rt payload s)) = processedEvents s"
  by (simp add: Auto_Trade_UPDATE_rest_def Let_def)

lemma Copy_Wallets_UPDATE_rest_processedEvents [simp]:
  "processedEvents (state_of (Copy_Wallets_UPDATE_rest rt payload s)) = processedEvents s"
  by (simp add: Copy_Wallets_UPDATE_rest_def Let_def split: option.split)

lemma on_change_seen:
  "processedEvents s (key_of rt now table event payload) \<noteq> None \<Longrightarrow>
     on_change rt now table event payload s = Returned s"
  by (cases table; cases event)
     (simp_all add: key_of_def Users_INSERT_def Users_UPDATE_def Auto_Trade_UPDATE_def
        Auto_Trade_INSERT_def Copy_Wallets_INSERT_def Copy_Wallets_UPDATE_def
        Monthly_Active_Users_INSERT_def unless_duplicate_seen)

lemma on_change_processedEvents:
  "processedEvents (state_of (on_change rt now table event payload s)) = processedEvents s
   \<or> (processedEvents s (key_of rt now table event payload) = None
      \<and> processedEvents (state_of (on_change rt now table event payload s)) =
           (processedEvents s)(key_of rt now table event payload \<mapsto> Fin (of_int now)))"
proof (cases "processedEvents s (key_of rt now table event payload) = None")
  case False
  then show ?thesis using on_change_seen by simp
next
  case True
  then show ?thesis
    by (cases table; cases event)
       (simp_all add: key_of_def Users_INSERT_def Users_UPDATE_def Auto_Trade_UPDATE_def
          Auto_Trade_INSERT_def Copy_Wallets_INSERT_def Copy_Wallets_UPDATE_def
          Monthly_Active_Users_INSERT_def unless_duplicate_new)
qed

lemma sweep_keeps_recent:
  assumes "processedEvents s k = Some (Fin (of_int t1))" and "now \<le> t1 + 300000"
  shows "processedEvents (sweep now s) k = Some (Fin (of_int t1))"
proof -
  have "\<not> (of_int now - of_int t1 > (300000::rat))"
  proof -
    have "(of_int now :: rat) \<le> of_int (t1 + 300000)" using assms(2) of_int_le_iff by blast
    then show ?thesis by simp
  qed
  then show ?thesis using assms(1)
    by (simp add: sweep_def evict_def EVENT_CACHE_TTL_def num_gt_def)
qed



lemma step_keeps_recent:
  assumes "processedEvents s k = Some (Fin (of_int t1))" and "time_of e \<le> t1 + 300000"
  shows "processedEvents (state_of (step rt e s)) k = Some (Fin (of_int t1))"
proof (cases e)
  case (Delivery now table event payload)
  then show ?thesis
    using assms(1) on_change_processedEvents[of rt now table event payload s] by auto
next
  case (Tick now)
  then show ?thesis using assms sweep_keeps_recent by simp
qed

lemma run_keeps_recent:
  assumes "processedEvents s k = Some (Fin (of_int t1))"
      and "\<forall>e\<in>set es. time_of e \<le> t1 + 300000"
  shows "processedEvents (state_of (run rt es s)) k = Some (Fin (of_int t1))"
  using assms
proof (induction es arbitrary: s)
  case Nil
  then show ?case by simp
next
  case (Cons e es)
  have st: "processedEvents (state_of (step rt e s)) k = Some (Fin (of_int t1))"
    using Cons.prems step_keeps_recent by simp
  show ?case
  proof (cases "step rt e s")
    case (Returned s1)
    then show ?thesis using Cons.IH[of s1] st Cons.prems by simp
  next
    case (Thrown err s1)
    then show ?thesis using st by simp
  qed
qed


lemma signup_key: "key_of rt now Users INSERT signup = ''Users:INSERT:u1:2024-05-01T10:00:00Z:''"
  by (simp add: key_of_def generateEventId_def signup_def opt_lookup_def lookup_def js_or_def)

lemma sweep_sent [simp]: "sent (sweep now s) = sent s"
  by (simp add: sweep_def)


lemma signup_run1:
  "on_change rt 1700000000000 Users INSERT signup initial_state
         = Returned (initial_state
             \<lparr>processedEvents := [''Users:INSERT:u1:2024-05-01T10:00:00Z:'' \<mapsto> Fin 1700000000000],
              sent := [Users_INSERT_message rt [(''id'', JStr ''u1''), (''telegram_username'', JStr ''ann''),
                          (''created_at'', JStr ''2024-05-01T10:00:00Z'')]]\<rparr>)"
  using signup_key
  by (simp add: Users_INSERT_def unless_duplicate_def isDuplicateEvent_def key_of_def
        initial_state_def send_about_new_def sendTelegramMessage_def signup_def)








text \<open>
  Claim C4. An event is delivered and its key is seen for the first time; the handler
  returns. Whatever is delivered and whichever sweeps run in the five minutes after that,
  a second delivery of the same table and operation with the same key changes nothing
  in the state: no message is sent, nothing is recorded.
\<close>

theorem duplicate_within_window_sends_nothing:
  assumes first_sight: "processedEvents s0 (key_of rt t1 table event payload1) = None"
      and first: "on_change rt t1 table event payload1 s0 = Returned s1"
      and between: "run rt es s1 = Returned s2"
      and window: "\<forall>e\<in>set es. time_of e \<le> t1 + 300000"
      and same_key: "key_of rt t2 table event payload2 = key_of rt t1 table event payload1"
  shows "on_change rt t2 table event payload2 s2 = Returned s2"
proof (cases "processedEvents s1 (key_of rt t1 table event payload1) = None")
  case True
  then have "processedEvents (state_of (on_change rt t1 table event payload1 s0)) = processedEvents s0"
    using on_change_processedEvents[of rt t1 table event payload1 s0] first by auto
  then have same: "processedEvents s1 = processedEvents s0" using first by simp
  have "table = Monthly_Active_Users \<and> event = UPDATE"
  proof (rule ccontr)
    assume "\<not> (table = Monthly_Active_Users \<and> event = UPDATE)"
    then have "processedEvents (state_of (on_change rt t1 table event payload1 s0))
                 (key_of rt t1 table event payload1) \<noteq> None"
      using first_sight
      by (cases table; cases event)
         (simp_all add: key_of_def Users_INSERT_def Users_UPDATE_def Auto_Trade_UPDATE_def
            Auto_Trade_INSERT_def Copy_Wallets_INSERT_def Copy_Wallets_UPDATE_def
            Monthly_Active_Users_INSERT_def unless_duplicate_new)
    then show False using True first by simp
  qed
  then show ?thesis by simp
next
  case False
  let ?k = "key_of rt t1 table event payload1"
  have "processedEvents s1 ?k = Some (Fin (of_int t1))"
    using on_change_processedEvents[of rt t1 table event payload1 s0] first first_sight False
    by auto
  then have "processedEvents (state_of (run rt es s1)) ?k = Some (Fin (of_int t1))"
    using window by (rule run_keeps_recent)
  then have "processedEvents s2 (key_of rt t2 table event payload2) \<noteq> None"
    using between same_key by simp
  then show ?thesis by (rule on_change_seen)
qed

theorem duplicate_within_window_sends_nothing_witness:
  "\<forall>rt. processedEvents initial_state (key_of rt 1700000000000 Users INSERT signup) = None
     \<and> time_of (Tick 1700000060000) \<le> 1700000000000 + 300000
     \<and> time_of (Tick 1700000120000) \<le> 1700000000000 + 300000
     \<and> key_of rt 1700000150000 Users INSERT signup = key_of rt 1700000000000 Users INSERT signup
     \<and> run rt [Delivery 1700000000000 Users INSERT signup, Tick 1700000060000, Tick 1700000120000,
                Delivery 1700000150000 Users INSERT signup] initial_state
       = run rt [Delivery 1700000000000 Users INSERT signup, Tick 1700000060000, Tick 1700000120000]
           initial_state"
proof
  fix rt
  let ?s1 = "initial_state
             \<lparr>processedEvents := [''Users:INSERT:u1:2024-05-01T10:00:00Z:'' \<mapsto> Fin 1700000000000],
              sent := [Users_INSERT_message rt [(''id'', JStr ''u1''), (''telegram_username'', JStr ''ann''),
                          (''created_at'', JStr ''2024-05-01T10:00:00Z'')]]\<rparr>"
  let ?s2 = "sweep 1700000120000 (sweep 1700000060000 ?s1)"
  have h1: "processedEvents initial_state (key_of rt 1700000000000 Users INSERT signup) = None"
    by (simp add: initial_state_def)
  have h2: "on_change rt 1700000000000 Users INSERT signup initial_state = Returned ?s1"
    by (rule signup_run1)
  have h3: "run rt [Tick 1700000060000, Tick 1700000120000] ?s1 = Returned ?s2" by simp
  have h4: "\<forall>e\<in>set [Tick 1700000060000, Tick 1700000120000]. time_of e \<le> 1700000000000 + 300000"
    by simp
  have h5: "key_of rt 1700000150000 Users INSERT signup = key_of rt 1700000000000 Users INSERT signup"
    by (simp add: signup_key)
  from duplicate_within_window_sends_nothing[OF h1 h2 h3 h4 h5]
  have "on_change rt 1700000150000 Users INSERT signup ?s2 = Returned ?s2" .
  then show "processedEvents initial_state (key_of rt 1700000000000 Users INSERT signup) = None
     \<and> time_of (Tick 1700000060000) \<le> 1700000000000 + 300000
     \<and> time_of (Tick 1700000120000) \<le> 1700000000000 + 300000
     \<and> key_of rt 1700000150000 Users INSERT signup = key_of rt 1700000000000 Users INSERT signup
     \<and> run rt [Delivery 1700000000000 Users INSERT signup, Tick 1700000060000, Tick 1700000120000,
                Delivery 1700000150000 Users INSERT signup] initial_state
       = run rt [Delivery 1700000000000 Users INSERT signup, Tick 1700000060000, Tick 1700000120000]
           initial_state"
    using h1 h2 h5 by simp
qed






section \<open>Properties of the Users UPDATE handler\<close>





lemma milestone_loop_sent [simp]: "sent (snd (milestone_loop k l ov nv ms g s)) = sent s"
  by (induction ms) auto





lemma sample_base64: "base64 sample_runtime ''0.02|||||'' = ''MC4wMnx8fHx8''"
  by (simp add: sample_runtime_def base64_alphabet_def)



section \<open>Properties of the queue message handler\<close>

lemma handle_message_ok:
  assumes "service_ok (ReceiptHandle m)"
  shows "\<exists>s'. handle_message rt service_ok m s = Returned s'"
  using assms
  by (auto simp: handle_message_def try_message_def processSQSOrder_def deleteMessage_def
           split: option.split parsed.split)

lemma message_loop_append:
  "message_loop rt service_ok (xs @ ys) s =
     (case message_loop rt service_ok xs s of
        Thrown e s1 \<Rightarrow> Thrown e s1
      | Returned s1 \<Rightarrow> message_loop rt service_ok ys s1)"
  by (induction xs arbitrary: s) (auto split: outcome.split)

lemma message_loop_ok:
  assumes "\<forall>x\<in>set xs. service_ok (ReceiptHandle x)"
  shows "\<exists>s'. message_loop rt service_ok xs s = Returned s'"
  using assms
proof (induction xs arbitrary: s)
  case Nil
  then show ?case by simp
next
  case (Cons x xs)
  then obtain s1 where "handle_message rt service_ok x s = Returned s1"
    using handle_message_ok[of service_ok x rt s] by auto
  then show ?case using Cons by simp
qed

text \<open>
  Claim C8. A message whose body \<open>JSON.parse\<close> rejects is deleted from the queue and
  nothing is sent for it, provided the delete call itself succeeds: the loop body returns
  with the receipt handle added to the deleted ones and nothing else changed. In a batch
  the loop reaches (the delete calls before it succeed), the message contributes exactly
  that: the run is the run on the messages before it, the deletion, and the run on the
  messages after it.
\<close>

theorem malformed_message_deleted_nothing_sent:
  assumes malformed: "JSON_parse rt (Body m) = None"
      and acknowledged: "service_ok (ReceiptHandle m)"
      and reached: "\<forall>x\<in>set before. service_ok (ReceiptHandle x)"
  shows "handle_message rt service_ok m s = Returned (s\<lparr>deleted := deleted s @ [ReceiptHandle m]\<rparr>)
       \<and> pollSQSMessages rt service_ok (Some (before @ m # after)) s =
           pollSQSMessages rt service_ok (Some after)
             ((pollSQSMessages rt service_ok (Some before) s)
                \<lparr>deleted := deleted (pollSQSMessages rt service_ok (Some before) s) @ [ReceiptHandle m]\<rparr>)"
proof -
  have one: "\<And>s. handle_message rt service_ok m s = Returned (s\<lparr>deleted := deleted s @ [ReceiptHandle m]\<rparr>)"
    using malformed acknowledged by (simp add: handle_message_def try_message_def deleteMessage_def)
  obtain s1 where s1: "message_loop rt service_ok before s = Returned s1"
    using message_loop_ok[OF reached] by blast
  have "message_loop rt service_ok (before @ m # after) s =
          message_loop rt service_ok after (s1\<lparr>deleted := deleted s1 @ [ReceiptHandle m]\<rparr>)"
    using s1 one by (simp add: message_loop_append)
  then show ?thesis using one s1 by (simp add: pollSQSMessages_def)
qed

theorem malformed_message_deleted_nothing_sent_witness:
  "JSON_parse sample_runtime (Body \<lparr>Body = ''{bad'', ReceiptHandle = ''h2''\<rparr>) = None
   \<and> service_up (ReceiptHandle \<lparr>Body = ''{bad'', ReceiptHandle = ''h2''\<rparr>)
   \<and> service_up (ReceiptHandle \<lparr>Body = ''{}'', ReceiptHandle = ''h1''\<rparr>)
   \<and> handle_message sample_runtime service_up \<lparr>Body = ''{bad'', ReceiptHandle = ''h2''\<rparr> initial_state
       = Returned (initial_state\<lparr>deleted := [''h2'']\<rparr>)
   \<and> deleted (pollSQSMessages sample_runtime service_up
        (Some [\<lparr>Body = ''{}'', ReceiptHandle = ''h1''\<rparr>, \<lparr>Body = ''{bad'', ReceiptHandle = ''h2''\<rparr>])
        initial_state) = [''h1'', ''h2'']
   \<and> sent (pollSQSMessages sample_runtime service_up
        (Some [\<lparr>Body = ''{}'', ReceiptHandle = ''h1''\<rparr>, \<lparr>Body = ''{bad'', ReceiptHandle = ''h2''\<rparr>])
        initial_state) = [order_message sample_runtime []]"
proof -
  let ?m = "\<lparr>Body = ''{bad'', ReceiptHandle = ''h2''\<rparr>"
  let ?b = "\<lparr>Body = ''{}'', ReceiptHandle = ''h1''\<rparr>"
  have h1: "JSON_parse sample_runtime (Body ?m) = None" by (simp add: sample_runtime_def)
  have h2: "service_up (ReceiptHandle ?m)" by (simp add: service_up_def)
  have h3: "\<forall>x\<in>set [?b]. service_up (ReceiptHandle x)" by (simp add: service_up_def)
  have before: "pollSQSMessages sample_runtime service_up (Some [?b]) initial_state
                  = initial_state\<lparr>sent := [order_message sample_runtime []], deleted := [''h1'']\<rparr>"
    by (simp add: pollSQSMessages_def handle_message_def try_message_def processSQSOrder_def
          deleteMessage_def sendTelegramMessage_def initial_state_def sample_runtime_def
          service_up_def)
  from malformed_message_deleted_nothing_sent[OF h1 h2 h3, of initial_state "[]"]
  have one: "handle_message sample_runtime service_up ?m initial_state
          = Returned (initial_state\<lparr>deleted := deleted initial_state @ [ReceiptHandle ?m]\<rparr>)"
    and batch: "pollSQSMessages sample_runtime service_up (Some [?b, ?m]) initial_state
          = pollSQSMessages sample_runtime service_up (Some [])
             ((pollSQSMessages sample_runtime service_up (Some [?b]) initial_state)
                \<lparr>deleted := deleted (pollSQSMessages sample_runtime service_up (Some [?b]) initial_state)
                              @ [ReceiptHandle ?m]\<rparr>)"
    by simp_all
  have batch': "pollSQSMessages sample_runtime service_up (Some [?b, ?m]) initial_state
          = initial_state\<lparr>sent := [order_message sample_runtime []], deleted := [''h1'', ''h2'']\<rparr>"
    unfolding batch before by (simp add: pollSQSMessages_def)
  show ?thesis using h1 h2 one batch' by (simp add: service_up_def initial_state_def)
qed

section \<open>Properties of the classifier as a whole\<close>











text \<open>
  Claim C2. An Auto\_Trade UPDATE whose old image holds the primary key only: the handler
  has no guard on the old image, reads the missing old status as the empty string, and
  announces the execution.
\<close>

theorem auto_trade_update_without_old_data_notifies:
  "\<forall>rt. length (Object_keys [(''id'', JStr ''t1'')]) = 1
     \<and> sent (state_of (on_change rt 1700000000000 Auto_Trade UPDATE
          \<lparr>new = Some [(''id'', JStr ''t1''), (''status'', JStr ''executed'')],
           old = Some [(''id'', JStr ''t1'')]\<rparr>
          initial_state))
        = [trade_executed_message rt [(''id'', JStr ''t1''), (''status'', JStr ''executed'')]]"
  by (simp add: Auto_Trade_UPDATE_def unless_duplicate_def isDuplicateEvent_def
        Auto_Trade_UPDATE_rest_def Object_keys_def initial_state_def opt_lookup_def lookup_def
        js_or_def toLowerCase_def lower_char_def send_about_new_def sendTelegramMessage_def Let_def)

text \<open>
  Claim C10. The status of a queue order is interpolated into the message as it is:
  with the status \<open><i>\<close> the message sent starts with \<open><b>Order <i></b>\<close>, where
  \<open>escapeHtml\<close> would have written \<open>&lt;i&gt;\<close>.
\<close>

theorem order_status_is_not_escaped:
  "\<forall>rt. sent (state_of (processSQSOrder rt (PObj [(''status'', JStr ''<i>'')]) initial_state))
          = [order_message rt [(''status'', JStr ''<i>'')]]
     \<and> take 22 (order_message rt [(''status'', JStr ''<i>'')]) = bar_chart @ '' <b>Order <i></b> ''
     \<and> escapeHtml rt (JStr ''<i>'') = ''&lt;i&gt;''"
  by (simp add: processSQSOrder_def sendTelegramMessage_def initial_state_def order_message_def
        lookup_def statusEmoji_def bar_chart_def escapeHtml_def replaceAll_def Let_def)

section \<open>Further properties\<close>

lemma set_replaceAll:
  "set (replaceAll c r str) = (set str - {c}) \<union> (if c \<in> set str then set r else {})"
  by (induction str) (auto simp: replaceAll_def)

text \<open>
  \<open>escapeHtml\<close> returns a string without \<open><\<close> and \<open>>\<close>, whatever it is given, and the
  empty string for \<open>null\<close> and \<open>undefined\<close>.
\<close>

theorem escapeHtml_leaves_no_angle_bracket:
  "CHR ''<'' \<notin> set (escapeHtml rt v) \<and> CHR ''>'' \<notin> set (escapeHtml rt v)
   \<and> escapeHtml rt JNull = [] \<and> escapeHtml rt JUndefined = []"
  by (simp add: escapeHtml_def set_replaceAll)

text \<open>
  An UPDATE of Users or of Copy\_Wallets whose old image has at most one key sends
  nothing and leaves the milestone cache as it is, whatever the new image holds.
\<close>

theorem update_without_old_data_sends_nothing:
  assumes "length (Object_keys (old_or_empty payload)) \<le> 1"
      and "table = Users \<or> table = Copy_Wallets"
  shows "sent (state_of (on_change rt now table UPDATE payload s)) = sent s
       \<and> milestoneCache (state_of (on_change rt now table UPDATE payload s)) = milestoneCache s"
proof -
  have rest: "sent (state_of (Users_UPDATE_rest rt payload s1)) = sent s1
            \<and> milestoneCache (state_of (Users_UPDATE_rest rt payload s1)) = milestoneCache s1
            \<and> sent (state_of (Copy_Wallets_UPDATE_rest rt payload s1)) = sent s1
            \<and> milestoneCache (state_of (Copy_Wallets_UPDATE_rest rt payload s1)) = milestoneCache s1"
    for s1
    using assms(1)
    by (simp add: Users_UPDATE_rest_def Copy_Wallets_UPDATE_rest_def Let_def split: option.split)
  show ?thesis
  proof (cases "processedEvents s (key_of rt now table UPDATE payload) = None")
    case False
    then show ?thesis using on_change_seen by simp
  next
    case True
    then show ?thesis using assms(2) rest
      by (auto simp: key_of_def Users_UPDATE_def Copy_Wallets_UPDATE_def unless_duplicate_new)
  qed
qed

theorem update_without_old_data_sends_nothing_witness:
  "\<forall>rt. length (Object_keys (old_or_empty
            \<lparr>new = Some [(''id'', JStr ''u1''), (''total_volume'', JNum (Fin 1200))],
             old = Some [(''id'', JStr ''u1'')]\<rparr>)) \<le> 1
     \<and> sent (state_of (on_change rt 1700000000000 Users UPDATE
            \<lparr>new = Some [(''id'', JStr ''u1''), (''total_volume'', JNum (Fin 1200))],
             old = Some [(''id'', JStr ''u1'')]\<rparr> initial_state)) = []"
proof
  fix rt
  let ?p = "\<lparr>new = Some [(''id'', JStr ''u1''), (''total_volume'', JNum (Fin 1200))],
             old = Some [(''id'', JStr ''u1'')]\<rparr>"
  have h: "length (Object_keys (old_or_empty ?p)) \<le> 1"
    by (simp add: old_or_empty_def Object_keys_def)
  from update_without_old_data_sends_nothing[OF h, of Users rt 1700000000000 initial_state]
  have "sent (state_of (on_change rt 1700000000000 Users UPDATE ?p initial_state)) = sent initial_state"
    by simp
  then show "length (Object_keys (old_or_empty ?p)) \<le> 1
     \<and> sent (state_of (on_change rt 1700000000000 Users UPDATE ?p initial_state)) = []"
    using h by (simp add: initial_state_def)
qed

text \<open>
  The sweep of the dedup store is exact: an entry recorded at \<open>t\<close> is removed by the
  sweep at \<open>now\<close> if and only if \<open>now - t\<close> is greater than five minutes.
\<close>

theorem sweep_removes_key_iff_expired:
  assumes "processedEvents s k = Some (Fin (of_int t))"
  shows "processedEvents (sweep now s) k = None \<longleftrightarrow> now - t > 300000"
proof -
  have "(of_int now - of_int t > (300000::rat)) \<longleftrightarrow> now - t > 300000"
  proof -
    have "(of_int now - of_int t :: rat) = of_int (now - t)" by simp
    moreover have "(of_int (now - t) > (of_int 300000 :: rat)) \<longleftrightarrow> now - t > 300000"
      by (rule of_int_less_iff)
    ultimately show ?thesis by simp
  qed
  then show ?thesis using assms
    by (simp add: sweep_def evict_def EVENT_CACHE_TTL_def num_gt_def)
qed

theorem sweep_removes_key_iff_expired_witness:
  "processedEvents (initial_state\<lparr>processedEvents := [''k'' \<mapsto> Fin (of_int 1700000000000)]\<rparr>) ''k''
     = Some (Fin (of_int 1700000000000))
   \<and> processedEvents (sweep 1700000300000
        (initial_state\<lparr>processedEvents := [''k'' \<mapsto> Fin (of_int 1700000000000)]\<rparr>)) ''k'' \<noteq> None
   \<and> processedEvents (sweep 1700000300001
        (initial_state\<lparr>processedEvents := [''k'' \<mapsto> Fin (of_int 1700000000000)]\<rparr>)) ''k'' = None"
proof -
  let ?s = "initial_state\<lparr>processedEvents := [''k'' \<mapsto> Fin (of_int 1700000000000)]\<rparr>"
  have h: "processedEvents ?s ''k'' = Some (Fin (of_int 1700000000000))" by simp
  from sweep_removes_key_iff_expired[OF h, of 1700000300000]
       sweep_removes_key_iff_expired[OF h, of 1700000300001]
  show ?thesis using h by simp
qed

text \<open>
  The example of the specification: a volume of 900 rising to 1200 is notified for the
  threshold 1000; the update from 1200 to 1300 that follows is not notified; the update
  from 1300 to 6000 after that is notified for 5000.
\<close>

theorem volume_example:
  "\<forall>rt. checkAndNotifyMilestone rt (JStr ''u1'') ''volume'' (Fin 900) (Fin 1200) volumeMilestones Pair
           initial_state
         = (Some (Fin 1000, Fin 1200), initial_state\<lparr>milestoneCache := [''u1:volume'' \<mapsto> Fin 1000]\<rparr>)
     \<and> checkAndNotifyMilestone rt (JStr ''u1'') ''volume'' (Fin 1200) (Fin 1300) volumeMilestones Pair
           (initial_state\<lparr>milestoneCache := [''u1:volume'' \<mapsto> Fin 1000]\<rparr>)
         = (None, initial_state\<lparr>milestoneCache := [''u1:volume'' \<mapsto> Fin 1000]\<rparr>)
     \<and> checkAndNotifyMilestone rt (JStr ''u1'') ''volume'' (Fin 1300) (Fin 6000) volumeMilestones Pair
           (initial_state\<lparr>milestoneCache := [''u1:volume'' \<mapsto> Fin 1000]\<rparr>)
         = (Some (Fin 5000, Fin 6000), initial_state\<lparr>milestoneCache := [''u1:volume'' \<mapsto> Fin 5000]\<rparr>)"
  by (simp add: checkAndNotifyMilestone_def cacheKey_of_def initial_state_def volumeMilestones_def
        lastNotified_of_def num_gt_def)

end
